theory Spec2Isabelle
  imports Complex_Main
begin

section \<open>Python values and exceptions\<close>

text \<open>
  The module \<^verbatim>\<open>vectorutils.py\<close> takes arbitrary Python objects. The values below are the
  ones its code can tell apart: integers, floats, strings, the two sequence types, a set
  (iterable and sized, but not subscriptable), a generator (iterable, but neither sized
  nor subscriptable) and \<^verbatim>\<open>None\<close> (not iterable).

  An \<^verbatim>\<open>int\<close> is an unbounded integer, with exact arithmetic. A \<^verbatim>\<open>float\<close> is a finite
  value, an infinity or a NaN; a finite float is written by the real number it denotes.
  The two zeros \<^verbatim>\<open>0.0\<close> and \<^verbatim>\<open>-0.0\<close>, which Python's \<^verbatim>\<open>==\<close> does not tell apart, are both
  \<open>Fin 0\<close>.
\<close>

datatype fval = Fin real | PInf | NInf | NaN

datatype pyobj =
    IntV int
  | FloatV fval
  | Str string
  | List "pyobj list"
  | Tuple "pyobj list"
  | SetV "pyobj list"
  | Gen "pyobj list"
  | NoneV

text \<open>
  The exceptions the module can raise. \<^verbatim>\<open>DimensionError\<close> comes from the module
  \<^verbatim>\<open>linagb_error\<close>, imported with \<^verbatim>\<open>from linagb_error import *\<close>; it is taken to be an
  exception class of its own. The others are Python's built-in ones.
\<close>

datatype pyerr =
  TypeError | ValueError | ZeroDivisionError | IndexError | OverflowError | DimensionError

definition bind_err :: "pyerr + 'a \<Rightarrow> ('a \<Rightarrow> pyerr + 'b) \<Rightarrow> pyerr + 'b" where
  "bind_err m f = (case m of Inl e \<Rightarrow> Inl e | Inr x \<Rightarrow> f x)"

subsection \<open>The floating-point arithmetic of the platform\<close>

text \<open>
  What a floating-point operation returns depends on the rounding of the hardware and on
  the C library behind \<^verbatim>\<open>math\<close>. The module is therefore modelled over any machine \<open>m\<close>:
  a record of the operations, each a function of its operands. An operation of the
  machine fails with a range error (Python's OverflowError) or a domain error (Python's
  ValueError) where the record says so.

  \<^item> \<open>fl_of_int\<close>: the conversion of an \<^verbatim>\<open>int\<close> to a float, \<open>None\<close> when the integer is too
    large;
  \<^item> \<open>fl_add\<close>, \<open>fl_mul\<close>, \<open>fl_div\<close>: \<^verbatim>\<open>+\<close>, \<^verbatim>\<open>*\<close> and \<^verbatim>\<open>/\<close> on two floats (the divisor not
    zero), which never raise;
  \<^item> \<open>fl_pow2\<close>: \<^verbatim>\<open>x ** 2\<close> on a float;
  \<^item> \<open>fl_int_div\<close>: \<^verbatim>\<open>a / b\<close> on two integers (the divisor not zero);
  \<^item> the functions of \<^verbatim>\<open>math\<close> on a float.
\<close>

datatype fl_error = Range | Domain

record fpu =
  fl_of_int :: "int \<Rightarrow> fval option"
  fl_add :: "fval \<Rightarrow> fval \<Rightarrow> fval"
  fl_mul :: "fval \<Rightarrow> fval \<Rightarrow> fval"
  fl_div :: "fval \<Rightarrow> fval \<Rightarrow> fval"
  fl_pow2 :: "fval \<Rightarrow> fl_error + fval"
  fl_int_div :: "int \<Rightarrow> int \<Rightarrow> fl_error + fval"
  fl_sqrt :: "fval \<Rightarrow> fl_error + fval"
  fl_cos :: "fval \<Rightarrow> fl_error + fval"
  fl_sin :: "fval \<Rightarrow> fl_error + fval"
  fl_acos :: "fval \<Rightarrow> fl_error + fval"
  fl_atan :: "fval \<Rightarrow> fl_error + fval"
  fl_radians :: "fval \<Rightarrow> fl_error + fval"
  fl_degrees :: "fval \<Rightarrow> fl_error + fval"

fun raise_fl :: "fl_error \<Rightarrow> pyerr" where
  "raise_fl Range = OverflowError"
| "raise_fl Domain = ValueError"

definition lift_fl :: "fl_error + fval \<Rightarrow> pyerr + fval" where
  "lift_fl r = (case r of Inl e \<Rightarrow> Inl (raise_fl e) | Inr f \<Rightarrow> Inr f)"

fun is_fin :: "fval \<Rightarrow> bool" where
  "is_fin (Fin _) = True"
| "is_fin _ = False"

text \<open>
  The results that do not depend on the machine are written into the operations below:
  the float of the integer \<open>0\<close> is \<open>0.0\<close>, an integer of magnitude \<open>2\<^sup>1\<^sup>0\<^sup>2\<^sup>4\<close> or more
  has no float, \<open>0.0 + 0.0\<close>, \<open>0.0 ** 2\<close>, \<open>sqrt(0.0)\<close>, \<open>sin(0.0)\<close> and \<open>radians(0.0)\<close> are
  \<open>0.0\<close>, \<open>cos(0.0)\<close> is \<open>1.0\<close>, and \<open>0.0\<close> times a finite float is \<open>0.0\<close>.
\<close>

text \<open>
  The conversion of an operand or of an argument of \<^verbatim>\<open>math\<close> to a float: OverflowError for
  an integer that is too large, TypeError for an object that is not a number.
\<close>

fun as_float :: "fpu \<Rightarrow> pyobj \<Rightarrow> pyerr + fval" where
  "as_float m (FloatV f) = Inr f"
| "as_float m (IntV i) =
     (if i = 0 then Inr (Fin 0)
      else if 2 ^ 1024 \<le> \<bar>i\<bar> then Inl OverflowError
      else case fl_of_int m i of None \<Rightarrow> Inl OverflowError | Some f \<Rightarrow> Inr f)"
| "as_float m _ = Inl TypeError"

definition fadd :: "fpu \<Rightarrow> fval \<Rightarrow> fval \<Rightarrow> fval" where
  "fadd m f g = (if f = Fin 0 \<and> g = Fin 0 then Fin 0 else fl_add m f g)"

definition fmul :: "fpu \<Rightarrow> fval \<Rightarrow> fval \<Rightarrow> fval" where
  "fmul m f g = (if f = Fin 0 \<and> is_fin g then Fin 0 else fl_mul m f g)"

subsection \<open>Built-in operations used by the module\<close>

text \<open>\<^verbatim>\<open>isinstance(obj, Iterable)\<close>: the object has an \<^verbatim>\<open>__iter__\<close> method.\<close>

fun isinstance_Iterable :: "pyobj \<Rightarrow> bool" where
  "isinstance_Iterable (IntV _) = False"
| "isinstance_Iterable (FloatV _) = False"
| "isinstance_Iterable (Str _) = True"
| "isinstance_Iterable (List _) = True"
| "isinstance_Iterable (Tuple _) = True"
| "isinstance_Iterable (SetV _) = True"
| "isinstance_Iterable (Gen _) = True"
| "isinstance_Iterable NoneV = False"

text \<open>\<^verbatim>\<open>type(obj) is str\<close>.\<close>

fun type_is_str :: "pyobj \<Rightarrow> bool" where
  "type_is_str (Str _) = True"
| "type_is_str _ = False"

text \<open>\<^verbatim>\<open>len(obj)\<close>: raises TypeError for an object without \<^verbatim>\<open>__len__\<close>.\<close>

fun py_len :: "pyobj \<Rightarrow> pyerr + nat" where
  "py_len (Str s) = Inr (length s)"
| "py_len (List xs) = Inr (length xs)"
| "py_len (Tuple xs) = Inr (length xs)"
| "py_len (SetV xs) = Inr (length xs)"
| "py_len (Gen _) = Inl TypeError"
| "py_len (IntV _) = Inl TypeError"
| "py_len (FloatV _) = Inl TypeError"
| "py_len NoneV = Inl TypeError"

text \<open>
  \<^verbatim>\<open>obj[i]\<close> for a literal index \<^verbatim>\<open>i \<ge> 0\<close>: IndexError out of range, TypeError for an
  object that is not subscriptable.
\<close>

definition nth_err :: "'a list \<Rightarrow> nat \<Rightarrow> pyerr + 'a" where
  "nth_err xs i = (if i < length xs then Inr (xs ! i) else Inl IndexError)"

fun py_getitem :: "pyobj \<Rightarrow> nat \<Rightarrow> pyerr + pyobj" where
  "py_getitem (List xs) i = nth_err xs i"
| "py_getitem (Tuple xs) i = nth_err xs i"
| "py_getitem (Str s) i = (if i < length s then Inr (Str [s ! i]) else Inl IndexError)"
| "py_getitem (SetV _) i = Inl TypeError"
| "py_getitem (Gen _) i = Inl TypeError"
| "py_getitem (IntV _) i = Inl TypeError"
| "py_getitem (FloatV _) i = Inl TypeError"
| "py_getitem NoneV i = Inl TypeError"

text \<open>
  \<^verbatim>\<open>a + b\<close>: exact on two integers; on an integer and a float the integer is converted
  first; concatenation of two sequences of the same type.
\<close>

fun py_add :: "fpu \<Rightarrow> pyobj \<Rightarrow> pyobj \<Rightarrow> pyerr + pyobj" where
  "py_add m (IntV a) (IntV b) = Inr (IntV (a + b))"
| "py_add m (IntV a) (FloatV g) =
     bind_err (as_float m (IntV a)) (\<lambda>f. Inr (FloatV (fadd m f g)))"
| "py_add m (FloatV f) (IntV b) =
     bind_err (as_float m (IntV b)) (\<lambda>g. Inr (FloatV (fadd m f g)))"
| "py_add m (FloatV f) (FloatV g) = Inr (FloatV (fadd m f g))"
| "py_add m (Str a) (Str b) = Inr (Str (a @ b))"
| "py_add m (List a) (List b) = Inr (List (a @ b))"
| "py_add m (Tuple a) (Tuple b) = Inr (Tuple (a @ b))"
| "py_add m _ _ = Inl TypeError"

text \<open>
  \<^verbatim>\<open>a * g\<close> where \<^verbatim>\<open>g\<close> is a float (every product in the module has a value of
  \<^verbatim>\<open>cos\<close> or \<^verbatim>\<open>sin\<close> on the right): an integer \<^verbatim>\<open>a\<close> is converted first, and an \<^verbatim>\<open>a\<close>
  that is not a number raises TypeError.
\<close>

fun mul_float :: "fpu \<Rightarrow> pyobj \<Rightarrow> fval \<Rightarrow> pyerr + pyobj" where
  "mul_float m (IntV a) g = bind_err (as_float m (IntV a)) (\<lambda>f. Inr (FloatV (fmul m f g)))"
| "mul_float m (FloatV f) g = Inr (FloatV (fmul m f g))"
| "mul_float m _ g = Inl TypeError"

text \<open>\<^verbatim>\<open>a ** 2\<close>: exact on an integer.\<close>

fun py_pow2 :: "fpu \<Rightarrow> pyobj \<Rightarrow> pyerr + pyobj" where
  "py_pow2 m (IntV a) = Inr (IntV (a\<^sup>2))"
| "py_pow2 m (FloatV f) =
     (if f = Fin 0 then Inr (FloatV (Fin 0))
      else bind_err (lift_fl (fl_pow2 m f)) (\<lambda>g. Inr (FloatV g)))"
| "py_pow2 m _ = Inl TypeError"

text \<open>
  \<^verbatim>\<open>a / b\<close>, true division, whose result is a float. On two integers the divisor is
  tested first. Otherwise both operands are converted, the left one first, and the
  divisor is tested then.
\<close>

definition fdiv :: "fpu \<Rightarrow> fval \<Rightarrow> fval \<Rightarrow> pyerr + fval" where
  "fdiv m f g = (if g = Fin 0 then Inl ZeroDivisionError else Inr (fl_div m f g))"

fun py_truediv :: "fpu \<Rightarrow> pyobj \<Rightarrow> pyobj \<Rightarrow> pyerr + fval" where
  "py_truediv m (IntV a) (IntV b) =
     (if b = 0 then Inl ZeroDivisionError else lift_fl (fl_int_div m a b))"
| "py_truediv m (IntV a) (FloatV g) = bind_err (as_float m (IntV a)) (\<lambda>f. fdiv m f g)"
| "py_truediv m (FloatV f) (IntV b) = bind_err (as_float m (IntV b)) (\<lambda>g. fdiv m f g)"
| "py_truediv m (FloatV f) (FloatV g) = fdiv m f g"
| "py_truediv m _ _ = Inl TypeError"

text \<open>\<^verbatim>\<open>a == 0\<close> and \<^verbatim>\<open>a > 0\<close>; the ordering raises TypeError against a non-number.\<close>

fun py_eq0 :: "pyobj \<Rightarrow> bool" where
  "py_eq0 (IntV a) = (a = 0)"
| "py_eq0 (FloatV f) = (f = Fin 0)"
| "py_eq0 _ = False"

fun fl_gt0 :: "fval \<Rightarrow> bool" where
  "fl_gt0 (Fin a) = (0 < a)"
| "fl_gt0 PInf = True"
| "fl_gt0 NInf = False"
| "fl_gt0 NaN = False"

fun py_gt0 :: "pyobj \<Rightarrow> pyerr + bool" where
  "py_gt0 (IntV a) = Inr (0 < a)"
| "py_gt0 (FloatV f) = Inr (fl_gt0 f)"
| "py_gt0 _ = Inl TypeError"

subsection \<open>The functions of \<^verbatim>\<open>math\<close>\<close>

text \<open>
  A function of \<^verbatim>\<open>math\<close> converts its argument to a float, applies the operation of the
  machine and returns a float.
\<close>

definition math_sqrt :: "fpu \<Rightarrow> pyobj \<Rightarrow> pyerr + fval" where
  "math_sqrt m obj =
     bind_err (as_float m obj) (\<lambda>f. if f = Fin 0 then Inr (Fin 0) else lift_fl (fl_sqrt m f))"

definition math_cos :: "fpu \<Rightarrow> pyobj \<Rightarrow> pyerr + fval" where
  "math_cos m obj =
     bind_err (as_float m obj) (\<lambda>f. if f = Fin 0 then Inr (Fin 1) else lift_fl (fl_cos m f))"

definition math_sin :: "fpu \<Rightarrow> pyobj \<Rightarrow> pyerr + fval" where
  "math_sin m obj =
     bind_err (as_float m obj) (\<lambda>f. if f = Fin 0 then Inr (Fin 0) else lift_fl (fl_sin m f))"

definition math_radians :: "fpu \<Rightarrow> pyobj \<Rightarrow> pyerr + fval" where
  "math_radians m obj =
     bind_err (as_float m obj) (\<lambda>f. if f = Fin 0 then Inr (Fin 0) else lift_fl (fl_radians m f))"

definition math_degrees :: "fpu \<Rightarrow> pyobj \<Rightarrow> pyerr + fval" where
  "math_degrees m obj = bind_err (as_float m obj) (\<lambda>f. lift_fl (fl_degrees m f))"

definition math_atan :: "fpu \<Rightarrow> pyobj \<Rightarrow> pyerr + fval" where
  "math_atan m obj = bind_err (as_float m obj) (\<lambda>f. lift_fl (fl_atan m f))"

definition math_acos :: "fpu \<Rightarrow> pyobj \<Rightarrow> pyerr + fval" where
  "math_acos m obj = bind_err (as_float m obj) (\<lambda>f. lift_fl (fl_acos m f))"

section \<open>The module\<close>

subsection \<open>\<^verbatim>\<open>validate_vector\<close>\<close>

text \<open>
  \<^verbatim>\<open>isinstance(obj, Iterable) and type(obj) is not str and 1 < len(obj) < 4\<close>: the
  conjunction is evaluated left to right and stops at the first false operand, so
  \<^verbatim>\<open>len\<close> is called only on an iterable that is not a string, and an exception of
  \<^verbatim>\<open>len\<close> leaves the function whatever \<^verbatim>\<open>throwerr\<close> is.
\<close>

definition validate_vector :: "pyobj \<Rightarrow> bool \<Rightarrow> pyerr + bool" where
  "validate_vector obj throwerr =
     bind_err (if isinstance_Iterable obj \<and> \<not> type_is_str obj
               then bind_err (py_len obj) (\<lambda>n. Inr (1 < n \<and> n < 4))
               else Inr False)
       (\<lambda>ok. if ok then Inr True
              else if throwerr then Inl TypeError
              else Inr False)"

subsection \<open>\<^verbatim>\<open>two_to_three\<close>\<close>

text \<open>A Python function that reaches its end without \<^verbatim>\<open>return\<close> returns \<^verbatim>\<open>None\<close>.\<close>

definition two_to_three :: "fpu \<Rightarrow> pyobj \<Rightarrow> pyerr + pyobj" where
  "two_to_three m vector_2 =
     bind_err (validate_vector vector_2 False) (\<lambda>ok.
       if ok then
         bind_err (py_len vector_2) (\<lambda>n.
           if n = 3 then Inr vector_2 else py_add m vector_2 (List [IntV 0]))
       else Inr NoneV)"

subsection \<open>\<^verbatim>\<open>rec\<close>: polar or spherical to Cartesian\<close>

text \<open>
  \<^verbatim>\<open>a * f(radians(ang))\<close> for \<^verbatim>\<open>f\<close> one of \<^verbatim>\<open>cos\<close>, \<^verbatim>\<open>sin\<close>: the left operand is read
  first, the product is formed last.
\<close>

definition times_trig ::
  "fpu \<Rightarrow> pyobj \<Rightarrow> (fpu \<Rightarrow> pyobj \<Rightarrow> pyerr + fval) \<Rightarrow> pyobj \<Rightarrow> pyerr + pyobj" where
  "times_trig m a f ang =
     bind_err (math_radians m ang) (\<lambda>t.
     bind_err (f m (FloatV t)) (\<lambda>c. mul_float m a c))"

definition rec :: "fpu \<Rightarrow> pyobj \<Rightarrow> bool \<Rightarrow> pyerr + pyobj" where
  "rec m vector physics =
     bind_err (validate_vector vector False) (\<lambda>ok.
       if \<not> ok then Inr (List [])
       else bind_err (py_len vector) (\<lambda>n.
         if n = 2 then
           bind_err (py_getitem vector 0) (\<lambda>v0.
           bind_err (py_getitem vector 1) (\<lambda>v1.
           bind_err (times_trig m v0 math_cos v1) (\<lambda>x.
           bind_err (times_trig m v0 math_sin v1) (\<lambda>y.
             Inr (List [x, y])))))
         else
           bind_err (py_getitem vector (if physics then 1 else 2)) (\<lambda>inclin.
           bind_err (py_getitem vector (if physics then 2 else 1)) (\<lambda>azimuth.
           bind_err (py_getitem vector 0) (\<lambda>v0.
           bind_err (times_trig m v0 math_sin inclin) (\<lambda>xs.
           bind_err (times_trig m xs math_cos azimuth) (\<lambda>x.
           bind_err (times_trig m v0 math_sin inclin) (\<lambda>ys.
           bind_err (times_trig m ys math_sin azimuth) (\<lambda>y.
           bind_err (times_trig m v0 math_cos inclin) (\<lambda>z.
             Inr (List [x, y, z])))))))))))"

subsection \<open>\<^verbatim>\<open>pol\<close>: Cartesian to polar or spherical\<close>

text \<open>
  The angle in the plane, lines 98 to 101 and 105 to 108 of the source:
  \<^verbatim>\<open>90 if vector[1] > 0 else -90\<close>, an integer, when \<^verbatim>\<open>vector[0] == 0\<close>, and
  \<^verbatim>\<open>degrees(atan(vector[1] / vector[0]))\<close>, a float, otherwise.
\<close>

definition plane_angle :: "fpu \<Rightarrow> pyobj \<Rightarrow> pyerr + pyobj" where
  "plane_angle m vector =
     bind_err (py_getitem vector 0) (\<lambda>v0.
       if py_eq0 v0 then
         bind_err (py_getitem vector 1) (\<lambda>v1.
         bind_err (py_gt0 v1) (\<lambda>pos. Inr (IntV (if pos then 90 else - 90))))
       else
         bind_err (py_getitem vector 1) (\<lambda>v1.
         bind_err (py_truediv m v1 v0) (\<lambda>q.
         bind_err (math_atan m (FloatV q)) (\<lambda>t.
         bind_err (math_degrees m (FloatV t)) (\<lambda>d. Inr (FloatV d))))))"

text \<open>\<^verbatim>\<open>vector[i] ** 2\<close>.\<close>

definition item_sq :: "fpu \<Rightarrow> pyobj \<Rightarrow> nat \<Rightarrow> pyerr + pyobj" where
  "item_sq m vector i = bind_err (py_getitem vector i) (py_pow2 m)"

definition pol :: "fpu \<Rightarrow> pyobj \<Rightarrow> bool \<Rightarrow> pyerr + pyobj" where
  "pol m vector physics =
     bind_err (validate_vector vector False) (\<lambda>ok.
       if \<not> ok then Inr (List [])
       else bind_err (py_len vector) (\<lambda>n.
         if n = 2 then
           bind_err (plane_angle m vector) (\<lambda>ang.
           bind_err (item_sq m vector 0) (\<lambda>a.
           bind_err (item_sq m vector 1) (\<lambda>b.
           bind_err (py_add m a b) (\<lambda>s.
           bind_err (math_sqrt m s) (\<lambda>r.
             Inr (List [FloatV r, ang]))))))
         else
           bind_err (item_sq m vector 0) (\<lambda>a.
           bind_err (item_sq m vector 1) (\<lambda>b.
           bind_err (py_add m a b) (\<lambda>ab.
           bind_err (item_sq m vector 2) (\<lambda>c.
           bind_err (py_add m ab c) (\<lambda>s.
           bind_err (math_sqrt m s) (\<lambda>r.
           bind_err (plane_angle m vector) (\<lambda>azimuth.
           bind_err (py_getitem vector 2) (\<lambda>v2.
           bind_err (py_truediv m v2 (FloatV r)) (\<lambda>q.
           bind_err (math_acos m (FloatV q)) (\<lambda>t.
           bind_err (math_degrees m (FloatV t)) (\<lambda>inclination.
             Inr (if physics then List [FloatV r, FloatV inclination, azimuth]
                  else List [FloatV r, azimuth, FloatV inclination]))))))))))))))"

subsection \<open>\<^verbatim>\<open>add_cartes\<close>\<close>

text \<open>\<^verbatim>\<open>result[i] += v[i]\<close>: \<^verbatim>\<open>result[i]\<close> is read, then \<^verbatim>\<open>v[i]\<close>, then the sum is stored.\<close>

definition add_item :: "fpu \<Rightarrow> pyobj list \<Rightarrow> nat \<Rightarrow> pyobj \<Rightarrow> pyerr + pyobj list" where
  "add_item m result i v =
     bind_err (nth_err result i) (\<lambda>a.
     bind_err (py_getitem v i) (\<lambda>b.
     bind_err (py_add m a b) (\<lambda>c. Inr (result[i := c]))))"

text \<open>The body of the \<^verbatim>\<open>for\<close> loop, lines 147 to 154.\<close>

definition add_step ::
  "fpu \<Rightarrow> nat \<Rightarrow> bool \<Rightarrow> pyobj list \<Rightarrow> pyobj \<Rightarrow> pyerr + pyobj list" where
  "add_step m base_dim fixdim result v =
     bind_err (validate_vector v True) (\<lambda>ok.
       if ok then
         bind_err (py_len v) (\<lambda>n.
           if n \<noteq> base_dim \<and> \<not> fixdim then Inl DimensionError
           else
             bind_err (add_item m result 0 v) (\<lambda>r0.
             bind_err (add_item m r0 1 v) (\<lambda>r1.
               if base_dim = n \<and> n = 3 then add_item m r1 2 v else Inr r1)))
       else Inr result)"

fun add_loop ::
  "fpu \<Rightarrow> nat \<Rightarrow> bool \<Rightarrow> pyobj list \<Rightarrow> pyobj list \<Rightarrow> pyerr + pyobj list" where
  "add_loop m base_dim fixdim result [] = Inr result"
| "add_loop m base_dim fixdim result (v # vs) =
     (case add_step m base_dim fixdim result v of
        Inl e \<Rightarrow> Inl e
      | Inr result' \<Rightarrow> add_loop m base_dim fixdim result' vs)"

text \<open>
  The \<^verbatim>\<open>try\<close> block, lines 137 to 156. \<^verbatim>\<open>validate_vector(args[0], True)\<close> returns
  \<^verbatim>\<open>True\<close> or raises, so \<^verbatim>\<open>base_dim\<close> and \<^verbatim>\<open>result\<close> are bound wherever they are read.
\<close>

definition add_cartes_try :: "fpu \<Rightarrow> pyobj list \<Rightarrow> bool \<Rightarrow> pyerr + pyobj" where
  "add_cartes_try m args fixdim =
     (if length args = 1 then
        bind_err (nth_err args 0) (\<lambda>a0.
        bind_err (validate_vector a0 True) (\<lambda>_. Inr a0))
      else
        bind_err (nth_err args 0) (\<lambda>a0.
        bind_err (validate_vector a0 True) (\<lambda>_.
        bind_err (py_len a0) (\<lambda>base_dim.
        bind_err (add_loop m base_dim fixdim
                    (if base_dim = 2 then [IntV 0, IntV 0] else [IntV 0, IntV 0, IntV 0]) args)
          (\<lambda>result. Inr (List result))))))"

text \<open>\<^verbatim>\<open>except (TypeError, DimensionError): return []\<close>; any other exception escapes.\<close>

definition add_cartes :: "fpu \<Rightarrow> pyobj list \<Rightarrow> bool \<Rightarrow> pyerr + pyobj" where
  "add_cartes m args fixdim =
     (case add_cartes_try m args fixdim of
        Inl TypeError \<Rightarrow> Inr (List [])
      | Inl DimensionError \<Rightarrow> Inr (List [])
      | Inl e \<Rightarrow> Inl e
      | Inr v \<Rightarrow> Inr v)"

section \<open>An exact machine\<close>

text \<open>
  The machine of unbounded precision and range: every operation on finite values returns
  the exact real result. It is one machine among all. The properties below are proved for
  every machine; this one gives them instances on concrete inputs.
\<close>

definition exact1 :: "(real \<Rightarrow> real) \<Rightarrow> fval \<Rightarrow> fl_error + fval" where
  "exact1 f a = (case a of Fin x \<Rightarrow> Inr (Fin (f x)) | _ \<Rightarrow> Inl Domain)"

definition exact2 :: "(real \<Rightarrow> real \<Rightarrow> real) \<Rightarrow> fval \<Rightarrow> fval \<Rightarrow> fval" where
  "exact2 f a b =
     (case a of Fin x \<Rightarrow> (case b of Fin y \<Rightarrow> Fin (f x y) | _ \<Rightarrow> NaN) | _ \<Rightarrow> NaN)"

definition exact_sqrt :: "fval \<Rightarrow> fl_error + fval" where
  "exact_sqrt a =
     (case a of Fin x \<Rightarrow> if x < 0 then Inl Domain else Inr (Fin (sqrt x)) | _ \<Rightarrow> Inl Domain)"

definition exact_acos :: "fval \<Rightarrow> fl_error + fval" where
  "exact_acos a =
     (case a of Fin x \<Rightarrow> if x < - 1 \<or> 1 < x then Inl Domain else Inr (Fin (arccos x))
      | _ \<Rightarrow> Inl Domain)"

definition exact_fpu :: fpu where
  "exact_fpu =
     \<lparr> fl_of_int = (\<lambda>i. Some (Fin (of_int i))),
       fl_add = exact2 (\<lambda>x y. x + y),
       fl_mul = exact2 (\<lambda>x y. x * y),
       fl_div = exact2 (\<lambda>x y. x / y),
       fl_pow2 = exact1 (\<lambda>x. x\<^sup>2),
       fl_int_div = (\<lambda>a b. Inr (Fin (of_int a / of_int b))),
       fl_sqrt = exact_sqrt,
       fl_cos = exact1 cos,
       fl_sin = exact1 sin,
       fl_acos = exact_acos,
       fl_atan = exact1 arctan,
       fl_radians = exact1 (\<lambda>d. d * pi / 180),
       fl_degrees = exact1 (\<lambda>a. a * 180 / pi) \<rparr>"

section \<open>Vectors of numbers\<close>

text \<open>
  The inputs the module is written for: a list or a tuple of two or three numbers.
  \<open>vdim\<close> is the number of components.
\<close>

fun is_number :: "pyobj \<Rightarrow> bool" where
  "is_number (IntV _) = True"
| "is_number (FloatV _) = True"
| "is_number _ = False"

fun items :: "pyobj \<Rightarrow> pyobj list" where
  "items (List xs) = xs"
| "items (Tuple xs) = xs"
| "items _ = []"

definition vdim :: "pyobj \<Rightarrow> nat" where
  "vdim v = length (items v)"

definition is_numvec :: "pyobj \<Rightarrow> bool" where
  "is_numvec v = ((vdim v = 2 \<or> vdim v = 3) \<and> list_all is_number (items v))"

section \<open>The descriptions of the operations\<close>

text \<open>
  The outcome the description of the conversions allows on a vector of numbers: a list of
  \<open>n\<close> elements, or an exception raised by the arithmetic.
\<close>

fun arith_error :: "pyerr \<Rightarrow> bool" where
  "arith_error OverflowError = True"
| "arith_error ValueError = True"
| "arith_error ZeroDivisionError = True"
| "arith_error _ = False"


text \<open>
  An outcome is acceptable for a property \<open>P\<close> when it is a value with that property or
  an exception raised by the arithmetic.
\<close>

definition ok_or :: "('a \<Rightarrow> bool) \<Rightarrow> pyerr + 'a \<Rightarrow> bool" where
  "ok_or P r = (case r of Inl e \<Rightarrow> arith_error e | Inr x \<Rightarrow> P x)"


text \<open>
  Cartesian to polar in the plane, in the words of the description: the radius
  \<open>sqrt(x\<^sup>2 + y\<^sup>2)\<close> and the angle \<open>degrees(atan(y / x))\<close>, with the arithmetic of Python.
\<close>

definition sqrt_sum_sq :: "fpu \<Rightarrow> pyobj \<Rightarrow> pyobj \<Rightarrow> pyerr + fval" where
  "sqrt_sum_sq m x y =
     bind_err (py_pow2 m x) (\<lambda>a.
     bind_err (py_pow2 m y) (\<lambda>b.
     bind_err (py_add m a b) (\<lambda>s. math_sqrt m s)))"

definition degrees_atan_quot :: "fpu \<Rightarrow> pyobj \<Rightarrow> pyobj \<Rightarrow> pyerr + fval" where
  "degrees_atan_quot m y x =
     bind_err (py_truediv m y x) (\<lambda>q.
     bind_err (math_atan m (FloatV q)) (\<lambda>t. math_degrees m (FloatV t)))"

text \<open>
  The sums the description of \<^verbatim>\<open>add_cartes\<close> speaks of: the sum of a list of numbers is
  formed from left to right with Python's \<^verbatim>\<open>+\<close>, starting from the integer \<open>0\<close>.
  \<open>sum_coord m i args\<close> sums component \<open>i\<close> over every argument, and \<open>sum_z3 m args\<close>
  sums the third component over the arguments of length 3 only.
\<close>

fun py_sum :: "fpu \<Rightarrow> pyobj \<Rightarrow> pyobj list \<Rightarrow> pyerr + pyobj" where
  "py_sum m acc [] = Inr acc"
| "py_sum m acc (x # xs) = bind_err (py_add m acc x) (\<lambda>acc'. py_sum m acc' xs)"

definition sum_coord :: "fpu \<Rightarrow> nat \<Rightarrow> pyobj list \<Rightarrow> pyerr + pyobj" where
  "sum_coord m i args = py_sum m (IntV 0) (map (\<lambda>v. items v ! i) args)"

definition sum_z3 :: "fpu \<Rightarrow> pyobj list \<Rightarrow> pyerr + pyobj" where
  "sum_z3 m args =
     py_sum m (IntV 0) (map (\<lambda>v. items v ! 2) (filter (\<lambda>v. vdim v = 3) args))"

section \<open>Evaluation rules\<close>

lemma bind_err_simps [simp]:
  "bind_err (Inl e) f = Inl e"
  "bind_err (Inr x) f = f x"
  by (simp_all add: bind_err_def)

lemma nth_err_simps [simp]:
  "nth_err (x # xs) 0 = Inr x"
  "nth_err [] i = Inl IndexError"
  "nth_err (x # xs) (Suc i) = nth_err xs i"
  "nth_err (x # xs) 1 = nth_err xs 0"
  "nth_err (x # xs) (numeral k) = nth_err xs (pred_numeral k)"
  by (simp_all add: nth_err_def numeral_eq_Suc)

lemma validate_simps:
  "validate_vector (List xs) t =
     (if 1 < length xs \<and> length xs < 4 then Inr True else if t then Inl TypeError else Inr False)"
  "validate_vector (Tuple xs) t =
     (if 1 < length xs \<and> length xs < 4 then Inr True else if t then Inl TypeError else Inr False)"
  "validate_vector (SetV xs) t =
     (if 1 < length xs \<and> length xs < 4 then Inr True else if t then Inl TypeError else Inr False)"
  "validate_vector (Str s) t = (if t then Inl TypeError else Inr False)"
  "validate_vector (IntV a) t = (if t then Inl TypeError else Inr False)"
  "validate_vector (FloatV f) t = (if t then Inl TypeError else Inr False)"
  "validate_vector NoneV t = (if t then Inl TypeError else Inr False)"
  "validate_vector (Gen xs) t = Inl TypeError"
  by (simp_all add: validate_vector_def)

text \<open>The values at zero that no machine changes.\<close>

lemma zero_simps:
  "as_float m (IntV 0) = Inr (Fin 0)"
  "math_sqrt m (IntV 0) = Inr (Fin 0)"
  "math_sqrt m (FloatV (Fin 0)) = Inr (Fin 0)"
  "math_radians m (IntV 0) = Inr (Fin 0)"
  "math_radians m (FloatV (Fin 0)) = Inr (Fin 0)"
  "math_cos m (FloatV (Fin 0)) = Inr (Fin 1)"
  "math_sin m (FloatV (Fin 0)) = Inr (Fin 0)"
  "fadd m (Fin 0) (Fin 0) = Fin 0"
  "fmul m (Fin 0) (Fin y) = Fin 0"
  "py_pow2 m (FloatV (Fin 0)) = Inr (FloatV (Fin 0))"
  by (simp_all add: math_sqrt_def math_radians_def math_cos_def math_sin_def fadd_def fmul_def)

text \<open>An integer of magnitude \<open>2\<^sup>1\<^sup>0\<^sup>2\<^sup>4\<close> has no float, whatever the machine.\<close>

lemma as_float_huge: "as_float m (IntV (2 ^ 1024)) = Inl OverflowError"
  by simp




text \<open>A vector of numbers has one of four shapes.\<close>

lemma numvec_cases:
  assumes "is_numvec v"
  obtains (L2) x y where "v = List [x, y]" "is_number x" "is_number y"
        | (T2) x y where "v = Tuple [x, y]" "is_number x" "is_number y"
        | (L3) x y z where "v = List [x, y, z]" "is_number x" "is_number y" "is_number z"
        | (T3) x y z where "v = Tuple [x, y, z]" "is_number x" "is_number y" "is_number z"
proof -
  have len: "length (items v) = 2 \<or> length (items v) = 3"
    and nums: "list_all is_number (items v)"
    using assms by (simp_all add: is_numvec_def vdim_def)
  have shape: "(\<exists>x y. items v = [x, y] \<and> is_number x \<and> is_number y)
      \<or> (\<exists>x y z. items v = [x, y, z] \<and> is_number x \<and> is_number y \<and> is_number z)"
    using len
  proof
    assume "length (items v) = 2"
    then obtain a b where "items v = [a, b]"
      by (auto simp: length_Suc_conv numeral_2_eq_2)
    with nums show ?thesis by simp
  next
    assume "length (items v) = 3"
    then obtain a b c where "items v = [a, b, c]"
      by (auto simp: length_Suc_conv numeral_3_eq_3)
    with nums show ?thesis by simp
  qed
  then show thesis
    using that by (cases v) auto
qed

lemma numvec_len: "is_numvec v \<Longrightarrow> py_len v = Inr (vdim v)"
  by (erule numvec_cases) (simp_all add: vdim_def)

lemma numvec_valid: "is_numvec v \<Longrightarrow> validate_vector v t = Inr True"
  by (erule numvec_cases) (simp_all add: validate_simps)

lemma numvec_dim: "is_numvec v \<Longrightarrow> vdim v = 2 \<or> vdim v = 3"
  by (simp add: is_numvec_def)


section \<open>The conversions at the origin of the plane\<close>

text \<open>
  C1, as the specification states it: \<^verbatim>\<open>pol\<close> maps the vector \<open>(0, 0)\<close> to \<open>(0, 90)\<close>.
  It does not: the test \<^verbatim>\<open>vector[1] > 0\<close> fails for \<open>y = 0\<close>, so the angle is taken from the
  \<^verbatim>\<open>else\<close> branch.
\<close>

theorem toPolar_zero2_not_90:
  "pol exact_fpu (List [IntV 0, IntV 0]) False \<noteq> Inr (List [FloatV (Fin 0), IntV 90])
   \<and> pol exact_fpu (List [IntV 0, IntV 0]) False \<noteq> Inr (List [IntV 0, IntV 90])
   \<and> pol exact_fpu (Tuple [IntV 0, IntV 0]) False \<noteq> Inr (List [FloatV (Fin 0), IntV 90])
   \<and> pol exact_fpu (Tuple [IntV 0, IntV 0]) False \<noteq> Inr (List [IntV 0, IntV 90])"
  by (simp add: pol_def validate_simps plane_angle_def item_sq_def zero_simps)

text \<open>
  C1, amended: for the vector \<open>(0, 0)\<close>, of integers or of floats, given as a list or as a
  tuple, under either convention and on every machine, \<^verbatim>\<open>pol\<close> returns exactly
  \<open>[0.0, -90]\<close> and \<^verbatim>\<open>rec\<close> returns exactly \<open>[0.0, 0.0]\<close>.
\<close>

theorem zero2_conversions:
  "pol m (List [IntV 0, IntV 0]) physics = Inr (List [FloatV (Fin 0), IntV (- 90)])
   \<and> pol m (List [FloatV (Fin 0), FloatV (Fin 0)]) physics = Inr (List [FloatV (Fin 0), IntV (- 90)])
   \<and> pol m (Tuple [IntV 0, IntV 0]) physics = Inr (List [FloatV (Fin 0), IntV (- 90)])
   \<and> pol m (Tuple [FloatV (Fin 0), FloatV (Fin 0)]) physics
       = Inr (List [FloatV (Fin 0), IntV (- 90)])
   \<and> rec m (List [IntV 0, IntV 0]) physics = Inr (List [FloatV (Fin 0), FloatV (Fin 0)])
   \<and> rec m (List [FloatV (Fin 0), FloatV (Fin 0)]) physics
       = Inr (List [FloatV (Fin 0), FloatV (Fin 0)])
   \<and> rec m (Tuple [IntV 0, IntV 0]) physics = Inr (List [FloatV (Fin 0), FloatV (Fin 0)])
   \<and> rec m (Tuple [FloatV (Fin 0), FloatV (Fin 0)]) physics
       = Inr (List [FloatV (Fin 0), FloatV (Fin 0)])"
  by (simp add: pol_def rec_def validate_simps plane_angle_def item_sq_def times_trig_def
        zero_simps)

section \<open>When the conversions return\<close>


text \<open>The outcomes of the operations on numbers: a number, or an exception of the arithmetic.\<close>

lemma ok_or_simps [simp]:
  "ok_or P (Inr x) = P x"
  "ok_or P (Inl e) = arith_error e"
  by (simp_all add: ok_or_def)























section \<open>The error of a failed validation\<close>

text \<open>
  C3, as the specification states it: a failed validation raises an error of a kind that
  the caller can tell from the other errors of the module. The \<^verbatim>\<open>raise\<close> statement raises
  the built-in TypeError, and so does \<^verbatim>\<open>two_to_three\<close> on a tuple that passed validation
  (a tuple and a list cannot be concatenated): two different failures, one error kind.
\<close>

theorem validation_error_shared:
  "validate_vector NoneV True = Inl TypeError
   \<and> validate_vector (Tuple [IntV 1, IntV 2]) True = Inr True
   \<and> two_to_three exact_fpu (Tuple [IntV 1, IntV 2]) = Inl TypeError"
  by (simp add: two_to_three_def validate_simps)

text \<open>
  C3, amended: for every input on which \<^verbatim>\<open>validate_vector(obj)\<close> does not return \<^verbatim>\<open>True\<close>,
  \<^verbatim>\<open>validate_vector(obj, True)\<close> raises TypeError; on the other inputs it returns \<^verbatim>\<open>True\<close>.
  TypeError is a kind other than DimensionError, the second error of the module.
\<close>

theorem validate_throws_TypeError:
  "(validate_vector obj False \<noteq> Inr True \<longrightarrow> validate_vector obj True = Inl TypeError)
   \<and> (validate_vector obj False = Inr True \<longrightarrow> validate_vector obj True = Inr True)
   \<and> TypeError \<noteq> DimensionError"
  by (cases obj) (simp_all add: validate_simps)

theorem validate_throws_TypeError_witness:
  "validate_vector (List [IntV 1]) False \<noteq> Inr True
   \<and> validate_vector (List [IntV 1]) True = Inl TypeError
   \<and> validate_vector (List [IntV 1, IntV 2]) False = Inr True
   \<and> validate_vector (List [IntV 1, IntV 2]) True = Inr True"
  using validate_throws_TypeError [of "List [IntV 1]"]
    validate_throws_TypeError [of "List [IntV 1, IntV 2]"]
  by (simp add: validate_simps)

section \<open>What \<^verbatim>\<open>validate_vector\<close> accepts\<close>

text \<open>
  C4: \<^verbatim>\<open>validate_vector(obj)\<close> returns \<^verbatim>\<open>True\<close> for an ordered, sized collection of two or
  three elements that is not a string, and returns \<^verbatim>\<open>False\<close> silently on every other
  object. On a generator the code does neither: a generator is an instance of
  \<^verbatim>\<open>Iterable\<close> and has no \<^verbatim>\<open>len\<close>, so \<^verbatim>\<open>len(obj)\<close> raises TypeError although \<^verbatim>\<open>throwerr\<close> is
  \<^verbatim>\<open>False\<close>.
\<close>

theorem validate_generator_raises:
  "validate_vector (Gen [IntV 0, IntV 1]) False = Inl TypeError"
  by (simp add: validate_simps)

text \<open>
  A set of two elements is accepted, although it has no order and no indexing; the test
  is for \<^verbatim>\<open>Iterable\<close> and a length, as the characterisation below says.
\<close>

lemma validate_set_accepted:
  "validate_vector (SetV [IntV 1, IntV 2]) False = Inr True"
  by (simp add: validate_simps)

lemma validate_True_iff:
  "validate_vector obj False = Inr True \<longleftrightarrow>
     (\<exists>xs. (obj = List xs \<or> obj = Tuple xs \<or> obj = SetV xs) \<and> (length xs = 2 \<or> length xs = 3))"
  by (cases obj) (auto simp: validate_simps)

section \<open>Spherical to Cartesian\<close>


text \<open>The same on every machine.\<close>

lemma rec_overflow_any:
  "rec m (List [IntV (2 ^ 1024), IntV 0, IntV 0]) False = Inl OverflowError"
  by (simp add: rec_def validate_simps times_trig_def zero_simps)


section \<open>Cartesian to polar in the plane\<close>

text \<open>
  C7, as the specification states it: on every valid vector \<open>(x, y)\<close>, \<^verbatim>\<open>pol\<close> returns the
  radius and the angle. It does not return when the sum of the squares is an integer that
  has no float: \<^verbatim>\<open>sqrt\<close> raises OverflowError.
\<close>

theorem pol_overflow:
  "pol exact_fpu (List [IntV 0, IntV (2 ^ 1024)]) False = Inl OverflowError"
  by (simp add: pol_def validate_simps plane_angle_def item_sq_def math_sqrt_def)

text \<open>
  C7, amended: on two components \<open>(x, y)\<close>, the angle is the integer \<open>90\<close> when \<open>x == 0\<close> and
  \<open>y > 0\<close>, the integer \<open>-90\<close> when \<open>x == 0\<close> and \<open>y \<le> 0\<close> (so \<open>(0, 0)\<close> gives \<open>-90\<close>), and
  \<open>degrees(atan(y / x))\<close> otherwise; the radius is \<open>sqrt(x ** 2 + y ** 2)\<close>; both are
  evaluated with the arithmetic of Python, the angle first. \<^verbatim>\<open>pol\<close> returns the list of
  the radius and the angle, or raises the exception that one of the operations raises. A
  tuple is treated as a list is.
\<close>

theorem pol_planar:
  "pol m (List [x, y]) p =
     bind_err (if py_eq0 x
               then bind_err (py_gt0 y) (\<lambda>pos. Inr (IntV (if pos then 90 else - 90)))
               else bind_err (degrees_atan_quot m y x) (\<lambda>d. Inr (FloatV d)))
       (\<lambda>ang. bind_err (sqrt_sum_sq m x y) (\<lambda>r. Inr (List [FloatV r, ang])))
   \<and> pol m (Tuple [x, y]) p = pol m (List [x, y]) p"
  by (simp add: pol_def validate_simps plane_angle_def item_sq_def sqrt_sum_sq_def
        degrees_atan_quot_def bind_err_def split: sum.splits)

section \<open>Adding several vectors\<close>

text \<open>
  C8, as the specification states it: on vectors of one dimension, \<^verbatim>\<open>add_cartes\<close> returns
  the componentwise sum. It does not when a sum cannot be formed: adding an integer that
  has no float to a float raises OverflowError, which the \<^verbatim>\<open>except\<close> clause does not catch.
\<close>

theorem add_cartes_overflow:
  "add_cartes exact_fpu
     [List [FloatV (Fin (1 / 2)), IntV 0], List [IntV (2 ^ 1024), IntV 0]] False
   = Inl OverflowError"
  by (simp add: add_cartes_def add_cartes_try_def validate_simps add_step_def add_item_def)

text \<open>The same on every machine.\<close>

lemma add_cartes_overflow_any:
  "add_cartes m [List [FloatV (Fin (1 / 2)), IntV 0], List [IntV (2 ^ 1024), IntV 0]] False
   = Inl OverflowError"
  by (simp add: add_cartes_def add_cartes_try_def validate_simps add_step_def add_item_def)

lemma py_sum_map_Cons:
  assumes "py_sum m a (map f (v # vs)) = Inr s"
  obtains a' where "py_add m a (f v) = Inr a'" "py_sum m a' (map f vs) = Inr s"
  using assms by (cases "py_add m a (f v)") simp_all

lemma add_step_mismatch:
  "is_numvec v \<Longrightarrow> vdim v \<noteq> base_dim \<Longrightarrow>
   add_step m base_dim False result v = Inl DimensionError"
  by (simp add: add_step_def numvec_valid numvec_len)

lemma add_step2:
  assumes "is_numvec v" and "fixdim \<or> vdim v = 2"
  shows "add_step m 2 fixdim [a, b] v =
           bind_err (py_add m a (items v ! 0)) (\<lambda>a'.
           bind_err (py_add m b (items v ! 1)) (\<lambda>b'. Inr [a', b']))"
  using assms(1)
proof (cases rule: numvec_cases)
  case (L2 x y)
  then show ?thesis by (simp add: add_step_def validate_simps add_item_def bind_err_def split: sum.splits)
next
  case (T2 x y)
  then show ?thesis by (simp add: add_step_def validate_simps add_item_def bind_err_def split: sum.splits)
next
  case (L3 x y z)
  with assms(2) have fixdim by (simp add: vdim_def)
  with L3 show ?thesis by (simp add: add_step_def validate_simps add_item_def bind_err_def split: sum.splits)
next
  case (T3 x y z)
  with assms(2) have fixdim by (simp add: vdim_def)
  with T3 show ?thesis by (simp add: add_step_def validate_simps add_item_def bind_err_def split: sum.splits)
qed

lemma add_step3:
  assumes "is_numvec v" and "fixdim \<or> vdim v = 3"
  shows "add_step m 3 fixdim [a, b, c] v =
           bind_err (py_add m a (items v ! 0)) (\<lambda>a'.
           bind_err (py_add m b (items v ! 1)) (\<lambda>b'.
             if vdim v = 3
             then bind_err (py_add m c (items v ! 2)) (\<lambda>c'. Inr [a', b', c'])
             else Inr [a', b', c]))"
  using assms(1)
proof (cases rule: numvec_cases)
  case (L2 x y)
  with assms(2) have fixdim by (simp add: vdim_def)
  with L2 show ?thesis by (simp add: add_step_def validate_simps add_item_def vdim_def bind_err_def split: sum.splits)
next
  case (T2 x y)
  with assms(2) have fixdim by (simp add: vdim_def)
  with T2 show ?thesis by (simp add: add_step_def validate_simps add_item_def vdim_def bind_err_def split: sum.splits)
next
  case (L3 x y z)
  then show ?thesis by (simp add: add_step_def validate_simps add_item_def vdim_def bind_err_def split: sum.splits)
next
  case (T3 x y z)
  then show ?thesis by (simp add: add_step_def validate_simps add_item_def vdim_def bind_err_def split: sum.splits)
qed

lemma add_loop2:
  "list_all is_numvec vs \<Longrightarrow> fixdim \<or> list_all (\<lambda>v. vdim v = 2) vs \<Longrightarrow>
   py_sum m a (map (\<lambda>v. items v ! 0) vs) = Inr sx \<Longrightarrow>
   py_sum m b (map (\<lambda>v. items v ! 1) vs) = Inr sy \<Longrightarrow>
   add_loop m 2 fixdim [a, b] vs = Inr [sx, sy]"
proof (induction vs arbitrary: a b)
  case Nil
  then show ?case by simp
next
  case (Cons v vs)
  from Cons.prems have v: "is_numvec v" "fixdim \<or> vdim v = 2"
    and vs: "list_all is_numvec vs" "fixdim \<or> list_all (\<lambda>v. vdim v = 2) vs"
    by auto
  from Cons.prems(3) obtain a' where a': "py_add m a (items v ! 0) = Inr a'"
    "py_sum m a' (map (\<lambda>v. items v ! 0) vs) = Inr sx"
    by (erule py_sum_map_Cons)
  from Cons.prems(4) obtain b' where b': "py_add m b (items v ! 1) = Inr b'"
    "py_sum m b' (map (\<lambda>v. items v ! 1) vs) = Inr sy"
    by (erule py_sum_map_Cons)
  show ?case
    using a'(1) b'(1) by (simp add: add_step2 [OF v] Cons.IH [OF vs a'(2) b'(2)])
qed

lemma add_loop3:
  "list_all is_numvec vs \<Longrightarrow> fixdim \<or> list_all (\<lambda>v. vdim v = 3) vs \<Longrightarrow>
   py_sum m a (map (\<lambda>v. items v ! 0) vs) = Inr sx \<Longrightarrow>
   py_sum m b (map (\<lambda>v. items v ! 1) vs) = Inr sy \<Longrightarrow>
   py_sum m c (map (\<lambda>v. items v ! 2) (filter (\<lambda>v. vdim v = 3) vs)) = Inr sz \<Longrightarrow>
   add_loop m 3 fixdim [a, b, c] vs = Inr [sx, sy, sz]"
proof (induction vs arbitrary: a b c)
  case Nil
  then show ?case by simp
next
  case (Cons v vs)
  from Cons.prems have v: "is_numvec v" "fixdim \<or> vdim v = 3"
    and vs: "list_all is_numvec vs" "fixdim \<or> list_all (\<lambda>v. vdim v = 3) vs"
    by auto
  from Cons.prems(3) obtain a' where a': "py_add m a (items v ! 0) = Inr a'"
    "py_sum m a' (map (\<lambda>v. items v ! 0) vs) = Inr sx"
    by (erule py_sum_map_Cons)
  from Cons.prems(4) obtain b' where b': "py_add m b (items v ! 1) = Inr b'"
    "py_sum m b' (map (\<lambda>v. items v ! 1) vs) = Inr sy"
    by (erule py_sum_map_Cons)
  show ?case
  proof (cases "vdim v = 3")
    case True
    with Cons.prems(5)
    have "py_sum m c (map (\<lambda>v. items v ! 2) (v # filter (\<lambda>v. vdim v = 3) vs)) = Inr sz"
      by simp
    then obtain c' where c': "py_add m c (items v ! 2) = Inr c'"
      "py_sum m c' (map (\<lambda>v. items v ! 2) (filter (\<lambda>v. vdim v = 3) vs)) = Inr sz"
      by (erule py_sum_map_Cons)
    show ?thesis
      using a'(1) b'(1) c'(1)
      by (simp add: add_step3 [OF v] True Cons.IH [OF vs a'(2) b'(2) c'(2)])
  next
    case False
    with Cons.prems(5)
    have c: "py_sum m c (map (\<lambda>v. items v ! 2) (filter (\<lambda>v. vdim v = 3) vs)) = Inr sz"
      by simp
    show ?thesis
      using a'(1) b'(1)
      by (simp add: add_step3 [OF v] False Cons.IH [OF vs a'(2) b'(2) c])
  qed
qed

lemma add_loop2_mismatch:
  "list_all is_numvec vs \<Longrightarrow> \<not> list_all (\<lambda>v. vdim v = 2) vs \<Longrightarrow>
   py_sum m a (map (\<lambda>v. items v ! 0) vs) = Inr sx \<Longrightarrow>
   py_sum m b (map (\<lambda>v. items v ! 1) vs) = Inr sy \<Longrightarrow>
   add_loop m 2 False [a, b] vs = Inl DimensionError"
proof (induction vs arbitrary: a b)
  case Nil
  then show ?case by simp
next
  case (Cons v vs)
  from Cons.prems have v: "is_numvec v" and vs: "list_all is_numvec vs" by auto
  show ?case
  proof (cases "vdim v = 2")
    case True
    with Cons.prems have rest: "\<not> list_all (\<lambda>v. vdim v = 2) vs" by simp
    from Cons.prems(3) obtain a' where a': "py_add m a (items v ! 0) = Inr a'"
      "py_sum m a' (map (\<lambda>v. items v ! 0) vs) = Inr sx"
      by (erule py_sum_map_Cons)
    from Cons.prems(4) obtain b' where b': "py_add m b (items v ! 1) = Inr b'"
      "py_sum m b' (map (\<lambda>v. items v ! 1) vs) = Inr sy"
      by (erule py_sum_map_Cons)
    from True v a'(1) b'(1) show ?thesis
      by (simp add: add_step2 Cons.IH [OF vs rest a'(2) b'(2)])
  next
    case False
    with v show ?thesis by (simp add: add_step_mismatch)
  qed
qed

lemma add_loop3_mismatch:
  "list_all is_numvec vs \<Longrightarrow> \<not> list_all (\<lambda>v. vdim v = 3) vs \<Longrightarrow>
   py_sum m a (map (\<lambda>v. items v ! 0) vs) = Inr sx \<Longrightarrow>
   py_sum m b (map (\<lambda>v. items v ! 1) vs) = Inr sy \<Longrightarrow>
   py_sum m c (map (\<lambda>v. items v ! 2) (filter (\<lambda>v. vdim v = 3) vs)) = Inr sz \<Longrightarrow>
   add_loop m 3 False [a, b, c] vs = Inl DimensionError"
proof (induction vs arbitrary: a b c)
  case Nil
  then show ?case by simp
next
  case (Cons v vs)
  from Cons.prems have v: "is_numvec v" and vs: "list_all is_numvec vs" by auto
  show ?case
  proof (cases "vdim v = 3")
    case True
    with Cons.prems have rest: "\<not> list_all (\<lambda>v. vdim v = 3) vs" by simp
    from Cons.prems(3) obtain a' where a': "py_add m a (items v ! 0) = Inr a'"
      "py_sum m a' (map (\<lambda>v. items v ! 0) vs) = Inr sx"
      by (erule py_sum_map_Cons)
    from Cons.prems(4) obtain b' where b': "py_add m b (items v ! 1) = Inr b'"
      "py_sum m b' (map (\<lambda>v. items v ! 1) vs) = Inr sy"
      by (erule py_sum_map_Cons)
    from True Cons.prems(5)
    have "py_sum m c (map (\<lambda>v. items v ! 2) (v # filter (\<lambda>v. vdim v = 3) vs)) = Inr sz"
      by simp
    then obtain c' where c': "py_add m c (items v ! 2) = Inr c'"
      "py_sum m c' (map (\<lambda>v. items v ! 2) (filter (\<lambda>v. vdim v = 3) vs)) = Inr sz"
      by (erule py_sum_map_Cons)
    from True v a'(1) b'(1) c'(1) show ?thesis
      by (simp add: add_step3 Cons.IH [OF vs rest a'(2) b'(2) c'(2)])
  next
    case False
    with v show ?thesis by (simp add: add_step_mismatch)
  qed
qed

lemma filter_all3:
  "list_all (\<lambda>v. vdim v = 3) vs \<Longrightarrow> filter (\<lambda>v. vdim v = 3) vs = vs"
  by (induction vs) simp_all

lemma add_cartes_try_multi:
  assumes "list_all is_numvec args" and "2 \<le> length args"
  shows "add_cartes_try m args fixdim =
     bind_err (add_loop m (vdim (hd args)) fixdim
                 (if vdim (hd args) = 2 then [IntV 0, IntV 0] else [IntV 0, IntV 0, IntV 0]) args)
       (\<lambda>result. Inr (List result))"
proof -
  from assms(2) obtain a0 rest where args: "args = a0 # rest" by (cases args) auto
  with assms(1) have a0: "is_numvec a0" by simp
  from args assms(2) have "rest \<noteq> []" by auto
  with args a0 show ?thesis
    by (simp add: add_cartes_try_def numvec_valid numvec_len)
qed

text \<open>
  C8, amended: a call of \<^verbatim>\<open>add_cartes\<close> with two or more vectors of numbers whose
  componentwise sums can be formed, each from left to right with Python's \<^verbatim>\<open>+\<close> starting
  from \<open>0\<close>, without an exception. The length of the first vector is the base dimension.
  Without \<^verbatim>\<open>fixdim\<close> the result is the list of the componentwise sums when every vector has
  the base dimension, and the empty list when one has not. With \<^verbatim>\<open>fixdim\<close> the result has
  the base dimension; its first two components are summed over every vector, and on base
  dimension 3 the third is summed over the vectors of length 3 only, so a third component
  is dropped on base 2 and a vector of length 2 adds nothing to the third component on
  base 3.
\<close>

theorem add_cartes_multi:
  assumes "list_all is_numvec args" and "2 \<le> length args"
    and "sum_coord m 0 args = Inr sx" and "sum_coord m 1 args = Inr sy"
  shows "(\<not> fixdim \<and> list_all (\<lambda>v. vdim v = vdim (hd args)) args \<and> vdim (hd args) = 2 \<longrightarrow>
            add_cartes m args fixdim = Inr (List [sx, sy]))
       \<and> (\<not> fixdim \<and> list_all (\<lambda>v. vdim v = vdim (hd args)) args \<and> vdim (hd args) = 3
            \<and> sum_coord m 2 args = Inr sz \<longrightarrow>
            add_cartes m args fixdim = Inr (List [sx, sy, sz]))
       \<and> (\<not> fixdim \<and> \<not> list_all (\<lambda>v. vdim v = vdim (hd args)) args
            \<and> (vdim (hd args) = 2 \<or> sum_z3 m args = Inr sz) \<longrightarrow>
            add_cartes m args fixdim = Inr (List []))
       \<and> (fixdim \<and> vdim (hd args) = 2 \<longrightarrow>
            add_cartes m args fixdim = Inr (List [sx, sy]))
       \<and> (fixdim \<and> vdim (hd args) = 3 \<and> sum_z3 m args = Inr sz \<longrightarrow>
            add_cartes m args fixdim = Inr (List [sx, sy, sz]))"
proof -
  note body = add_cartes_try_multi [OF assms(1,2)]
  from assms(2) obtain a0 rest where "args = a0 # rest" by (cases args) auto
  with assms(1) have "is_numvec (hd args)" by simp
  then have base: "vdim (hd args) = 2 \<or> vdim (hd args) = 3" by (rule numvec_dim)
  note sx = assms(3) [unfolded sum_coord_def] and sy = assms(4) [unfolded sum_coord_def]
  from base show ?thesis
  proof
    assume b: "vdim (hd args) = 2"
    have ok: "fixdim \<or> list_all (\<lambda>v. vdim v = 2) args \<Longrightarrow>
              add_loop m 2 fixdim [IntV 0, IntV 0] args = Inr [sx, sy]"
      by (rule add_loop2 [OF assms(1) _ sx sy])
    have bad: "\<not> list_all (\<lambda>v. vdim v = 2) args \<Longrightarrow>
               add_loop m 2 False [IntV 0, IntV 0] args = Inl DimensionError"
      by (rule add_loop2_mismatch [OF assms(1) _ sx sy])
    show ?thesis
      using ok bad by (auto simp: add_cartes_def body b)
  next
    assume b: "vdim (hd args) = 3"
    have ok: "fixdim \<or> list_all (\<lambda>v. vdim v = 3) args \<Longrightarrow> sum_z3 m args = Inr sz \<Longrightarrow>
              add_loop m 3 fixdim [IntV 0, IntV 0, IntV 0] args = Inr [sx, sy, sz]"
      unfolding sum_z3_def by (rule add_loop3 [OF assms(1) _ sx sy])
    have same: "list_all (\<lambda>v. vdim v = 3) args \<Longrightarrow> sum_z3 m args = sum_coord m 2 args"
      by (simp add: sum_z3_def sum_coord_def filter_all3)
    have bad: "\<not> list_all (\<lambda>v. vdim v = 3) args \<Longrightarrow> sum_z3 m args = Inr sz \<Longrightarrow>
               add_loop m 3 False [IntV 0, IntV 0, IntV 0] args = Inl DimensionError"
      unfolding sum_z3_def by (rule add_loop3_mismatch [OF assms(1) _ sx sy])
    show ?thesis
      using ok bad same by (auto simp: add_cartes_def body b)
  qed
qed

theorem add_cartes_multi_witness:
  "add_cartes exact_fpu [List [IntV 1, IntV 2], List [IntV 3, IntV 4]] False
     = Inr (List [IntV 4, IntV 6])
   \<and> add_cartes exact_fpu [List [IntV 1, IntV 2, IntV 3], List [IntV 4, IntV 5, IntV 6]] False
     = Inr (List [IntV 5, IntV 7, IntV 9])
   \<and> add_cartes exact_fpu [List [IntV 1, IntV 2], List [IntV 3, IntV 4, IntV 5]] False
     = Inr (List [])
   \<and> add_cartes exact_fpu [List [IntV 1, IntV 2], List [IntV 3, IntV 4, IntV 5]] True
     = Inr (List [IntV 4, IntV 6])
   \<and> add_cartes exact_fpu [List [IntV 1, IntV 2, IntV 3], Tuple [IntV 4, IntV 5]] True
     = Inr (List [IntV 5, IntV 7, IntV 3])"
  using
    add_cartes_multi [of "[List [IntV 1, IntV 2], List [IntV 3, IntV 4]]" exact_fpu
      "IntV 4" "IntV 6" False "IntV 0"]
    add_cartes_multi [of "[List [IntV 1, IntV 2, IntV 3], List [IntV 4, IntV 5, IntV 6]]"
      exact_fpu "IntV 5" "IntV 7" False "IntV 9"]
    add_cartes_multi [of "[List [IntV 1, IntV 2], List [IntV 3, IntV 4, IntV 5]]" exact_fpu
      "IntV 4" "IntV 6" False "IntV 0"]
    add_cartes_multi [of "[List [IntV 1, IntV 2], List [IntV 3, IntV 4, IntV 5]]" exact_fpu
      "IntV 4" "IntV 6" True "IntV 0"]
    add_cartes_multi [of "[List [IntV 1, IntV 2, IntV 3], Tuple [IntV 4, IntV 5]]" exact_fpu
      "IntV 5" "IntV 7" True "IntV 3"]
  by (simp add: is_numvec_def vdim_def sum_coord_def sum_z3_def numeral_2_eq_2)

section \<open>The empty call of \<^verbatim>\<open>add_cartes\<close>\<close>

text \<open>
  C9. \<^verbatim>\<open>add_cartes()\<close> with no vector takes the multi-vector branch, where \<^verbatim>\<open>args[0]\<close>
  raises IndexError. The \<^verbatim>\<open>except\<close> clause catches TypeError and DimensionError only,
  so the IndexError reaches the caller and no value is returned, whatever \<^verbatim>\<open>fixdim\<close> is.
\<close>

theorem add_cartes_no_args_raises: "add_cartes m [] fixdim = Inl IndexError"
  by (simp add: add_cartes_def add_cartes_try_def)

section \<open>\<^verbatim>\<open>two_to_three\<close>\<close>

text \<open>
  C10: \<^verbatim>\<open>two_to_three\<close> returns \<^verbatim>\<open>None\<close> when validation returns \<^verbatim>\<open>False\<close>; it returns its
  argument itself when that is a valid vector of length 3; and on a valid vector of length
  2 it returns \<^verbatim>\<open>vector_2 + [0]\<close>, which is the list extended by \<open>0\<close> for a list and a
  TypeError for a tuple.
\<close>

theorem two_to_three_cases:
  "(validate_vector v False = Inr False \<longrightarrow> two_to_three m v = Inr NoneV)
   \<and> (validate_vector v False = Inr True \<and> py_len v = Inr 3 \<longrightarrow> two_to_three m v = Inr v)
   \<and> (validate_vector v False = Inr True \<and> py_len v = Inr 2 \<longrightarrow>
        two_to_three m v = py_add m v (List [IntV 0]))
   \<and> two_to_three m (List [a, b]) = Inr (List [a, b, IntV 0])
   \<and> two_to_three m (Tuple [a, b]) = Inl TypeError"
  by (simp add: two_to_three_def validate_simps)

theorem two_to_three_cases_witness:
  "validate_vector (IntV 7) False = Inr False \<and> two_to_three exact_fpu (IntV 7) = Inr NoneV
   \<and> validate_vector (Tuple [IntV 1, IntV 2, IntV 3]) False = Inr True
   \<and> py_len (Tuple [IntV 1, IntV 2, IntV 3]) = Inr 3
   \<and> two_to_three exact_fpu (Tuple [IntV 1, IntV 2, IntV 3]) = Inr (Tuple [IntV 1, IntV 2, IntV 3])
   \<and> validate_vector (List [IntV 1, IntV 2]) False = Inr True
   \<and> py_len (List [IntV 1, IntV 2]) = Inr 2
   \<and> two_to_three exact_fpu (List [IntV 1, IntV 2]) = Inr (List [IntV 1, IntV 2, IntV 0])"
  using two_to_three_cases [of "IntV 7" exact_fpu]
    two_to_three_cases [of "Tuple [IntV 1, IntV 2, IntV 3]" exact_fpu]
    two_to_three_cases [of "List [IntV 1, IntV 2]" exact_fpu]
  by (simp add: validate_simps)

end
